theory Spec2Isabelle
  imports Complex_Main
begin

section \<open>The scoring engine of \<^verbatim>\<open>src/backend/main.py\<close>\<close>

text \<open>
  The function \<^verbatim>\<open>analyze_audio\<close> (lines 74-263) receives the completed transcription
  job as the dictionary \<^verbatim>\<open>result\<close> and computes the report from it (steps 4 to 7 of the
  function, lines 94-263). The upload, the polling loop and the HTTP layer before line 94
  only obtain \<^verbatim>\<open>result\<close>; the model starts from \<^verbatim>\<open>result\<close>.

  Conventions of the model.
  \<^item> A Python \<^verbatim>\<open>int\<close> is an \<^typ>\<open>int\<close> (unbounded); a length or a counter that only
    grows from 0 is a \<^typ>\<open>nat\<close>.
  \<^item> A Python \<^verbatim>\<open>float\<close> is a \<^typ>\<open>rat\<close>, and float arithmetic is exact rational
    arithmetic: the rounding of binary64 operations is not modelled. What is modelled
    of binary64 is its range where the program can raise on it: converting an
    \<^verbatim>\<open>int\<close> to a \<^verbatim>\<open>float\<close> (as \<^verbatim>\<open>gap_ms / 1000.0\<close> does) raises
    \<^verbatim>\<open>OverflowError\<close> when the integer rounds to a magnitude of \<open>2 ^ 1024\<close> or more.
  \<^item> A Python \<^verbatim>\<open>str\<close> is a \<^typ>\<open>string\<close>; \<^verbatim>\<open>str.lower\<close> is modelled on the ASCII
    letters.
  \<^item> An exception is a value of \<open>py_error\<close>; a computation that may raise returns
    \<open>py_error + 'a\<close>, with \<open>Inl\<close> for the exception.
\<close>

subsection \<open>Exceptions and the operations that raise them\<close>

datatype py_error = IndexError | ZeroDivisionError | OverflowError

definition py_bind :: "py_error + 'a \<Rightarrow> ('a \<Rightarrow> py_error + 'b) \<Rightarrow> py_error + 'b" where
  "py_bind m f = (case m of Inl e \<Rightarrow> Inl e | Inr x \<Rightarrow> f x)"

text \<open>\<^verbatim>\<open>xs[i]\<close>: a negative index counts from the end; out of range raises.\<close>

definition py_index :: "'a list \<Rightarrow> int \<Rightarrow> py_error + 'a" where
  "py_index xs i =
     (if 0 \<le> i \<and> i < int (length xs) then Inr (xs ! nat i)
      else if i < 0 \<and> - int (length xs) \<le> i then Inr (xs ! nat (int (length xs) + i))
      else Inl IndexError)"

text \<open>
  The largest magnitude an \<^verbatim>\<open>int\<close> may have to convert to a binary64 \<^verbatim>\<open>float\<close>:
  the largest double is \<open>2 ^ 1024 - 2 ^ 971\<close>, and an integer from the midpoint
  \<open>2 ^ 1024 - 2 ^ 970\<close> on rounds to \<open>2 ^ 1024\<close>, which is out of range.
\<close>

definition float_limit :: int where
  "float_limit = 2 ^ 1024 - 2 ^ 970"

definition to_float :: "int \<Rightarrow> py_error + rat" where
  "to_float n = (if \<bar>n\<bar> < float_limit then Inr (of_int n) else Inl OverflowError)"

text \<open>\<^verbatim>\<open>a / b\<close> on floats.\<close>

definition truediv :: "rat \<Rightarrow> rat \<Rightarrow> py_error + rat" where
  "truediv a b = (if b = 0 then Inl ZeroDivisionError else Inr (a / b))"

text \<open>\<^verbatim>\<open>n / b\<close> with \<^verbatim>\<open>n\<close> an \<^verbatim>\<open>int\<close> and \<^verbatim>\<open>b\<close> a \<^verbatim>\<open>float\<close>: \<^verbatim>\<open>n\<close> is converted first.\<close>

definition int_truediv :: "int \<Rightarrow> rat \<Rightarrow> py_error + rat" where
  "int_truediv n b = py_bind (to_float n) (\<lambda>a. truediv a b)"

text \<open>\<^verbatim>\<open>int(x)\<close> of a float truncates toward zero.\<close>

definition py_int :: "rat \<Rightarrow> int" where
  "py_int x = (if 0 \<le> x then \<lfloor>x\<rfloor> else \<lceil>x\<rceil>)"

text \<open>\<^verbatim>\<open>round(x, 1)\<close>: to one decimal, a tie to the even digit.\<close>

definition round_half_even :: "rat \<Rightarrow> int" where
  "round_half_even x =
     (let f = \<lfloor>x\<rfloor>; d = x - of_int f
      in if d < 1 / 2 then f else if 1 / 2 < d then f + 1 else if even f then f else f + 1)"

definition py_round1 :: "rat \<Rightarrow> rat" where
  "py_round1 x = of_int (round_half_even (x * 10)) / 10"

text \<open>\<^verbatim>\<open>str(n)\<close> of a non-negative \<^verbatim>\<open>int\<close>, as an f-string formats \<^verbatim>\<open>{len(...)}\<close>.\<close>

fun str_nat :: "nat \<Rightarrow> string" where
  "str_nat n =
     (if n < 10 then [char_of (48 + n)]
      else str_nat (n div 10) @ [char_of (48 + n mod 10)])"

declare str_nat.simps [simp del]

text \<open>\<^verbatim>\<open>s.lower()\<close> on ASCII, and \<^verbatim>\<open>s.replace(c, '')\<close> for a one-character \<^verbatim>\<open>c\<close>.\<close>

definition lower_char :: "char \<Rightarrow> char" where
  "lower_char c =
     (if 65 \<le> (of_char c :: nat) \<and> (of_char c :: nat) \<le> 90
      then char_of ((of_char c :: nat) + 32) else c)"

definition lower :: "string \<Rightarrow> string" where
  "lower s = map lower_char s"

definition remove_char :: "char \<Rightarrow> string \<Rightarrow> string" where
  "remove_char c s = filter (\<lambda>x. x \<noteq> c) s"

subsection \<open>The data\<close>

text \<open>
  A word of the transcript (\<^verbatim>\<open>word['text']\<close>, \<^verbatim>\<open>word['start']\<close>, \<^verbatim>\<open>word['end']\<close>,
  the times in milliseconds), a sentence of the sentiment analysis
  (\<^verbatim>\<open>sent['sentiment']\<close>), and the part of \<^verbatim>\<open>result\<close> that the function reads
  (lines 94, 95, 137, 208). A field keeps the name of its key; a prefix (\<open>w_\<close>,
  \<open>res_\<close>, \<open>rep_\<close>, \<open>cs_\<close>, \<open>cf_\<close>) tells apart the keys that several dictionaries
  share and avoids the reserved words \<open>text\<close> and \<open>end\<close>.
\<close>

record word =
  w_text :: string
  w_start :: int
  w_end :: int

record sentence =
  sentiment :: string

record result =
  res_words :: "word list"
  res_text :: string
  res_audio_duration :: rat
  res_sentiment_analysis_results :: "sentence list"

text \<open>An entry of \<^verbatim>\<open>detected_pauses\<close> (lines 128-131).\<close>

record pause =
  after_word_index :: nat
  duration :: rat

text \<open>The dictionary returned at lines 238-263.\<close>

record category_scores =
  cs_pacing :: rat
  cs_fillers :: int
  cs_pauses :: int
  cs_sentiment :: int

record category_feedback =
  cf_pacing :: string
  cf_fillers :: string
  cf_pauses :: string
  cf_sentiment :: string

record sentiment_stats =
  negative_sentences :: nat
  total_sentences :: nat

record report =
  rep_score :: int
  rep_wpm :: rat
  rep_fillers_detected :: nat
  rep_long_pauses :: nat
  rep_category_scores :: category_scores
  rep_category_feedback :: category_feedback
  rep_sentiment_stats :: sentiment_stats
  rep_feedback :: string
  rep_transcript_text :: string
  rep_words :: "word list"
  rep_detailed_pauses :: "pause list"

subsection \<open>Step 5: fillers (lines 98-108)\<close>

definition fillers :: "string list" where
  "fillers = [''um'', ''umm'', ''uh'', ''huh'', ''uhh'', ''like'', ''hmm'', ''mhm'',
     ''you know'', ''actually'', ''basically'', ''right'', ''well'']"

text \<open>\<^verbatim>\<open>word['text'].lower().replace('.', '').replace(',', '')\<close> (lines 105 and 172).\<close>

definition clean_word :: "word \<Rightarrow> string" where
  "clean_word word = remove_char (CHR '','') (remove_char (CHR ''.'') (lower (w_text word)))"

text \<open>The loop of lines 104-108 on the pair \<^verbatim>\<open>(filler_count, detected_fillers)\<close>.\<close>

fun filler_loop :: "word list \<Rightarrow> nat \<times> word list \<Rightarrow> nat \<times> word list" where
  "filler_loop [] acc = acc"
| "filler_loop (word # rest) (filler_count, detected_fillers) =
     (if clean_word word \<in> set fillers
      then filler_loop rest (filler_count + 1, detected_fillers @ [word])
      else filler_loop rest (filler_count, detected_fillers))"

subsection \<open>Step 6: pauses (lines 110-131)\<close>

definition pause_threshold :: rat where
  "pause_threshold = 3 / 2"

text \<open>
  The body of the loop at index \<open>i\<close> (lines 121-131), on the pair
  \<^verbatim>\<open>(long_pauses, detected_pauses)\<close>. \<^verbatim>\<open>gap_ms / 1000.0\<close> converts the integer
  \<^verbatim>\<open>gap_ms\<close> to a float.
\<close>

definition pause_step :: "word list \<Rightarrow> nat \<Rightarrow> nat \<times> pause list \<Rightarrow> py_error + nat \<times> pause list" where
  "pause_step words i acc =
     py_bind (py_index words (int i)) (\<lambda>current.
     py_bind (py_index words (int i + 1)) (\<lambda>next.
       let end_current = w_end current;
           start_next = w_start next;
           gap_ms = start_next - end_current
       in py_bind (int_truediv gap_ms 1000) (\<lambda>gap_sec.
            if gap_sec > pause_threshold
            then Inr (fst acc + 1,
                      snd acc @ [\<lparr>after_word_index = i, duration = gap_sec\<rparr>])
            else Inr acc)))"

text \<open>The loop over the indices that \<^verbatim>\<open>range\<close> yields, stopped by the first exception.\<close>

fun pause_loop :: "word list \<Rightarrow> nat list \<Rightarrow> nat \<times> pause list \<Rightarrow> py_error + nat \<times> pause list" where
  "pause_loop words [] acc = Inr acc"
| "pause_loop words (i # rest) acc =
     py_bind (pause_step words i acc) (\<lambda>acc'. pause_loop words rest acc')"

text \<open>
  \<^verbatim>\<open>range(len(words) - 1)\<close>: the indices \<open>0, ..., len - 2\<close>, and no index when
  \<^verbatim>\<open>len(words)\<close> is 0 or 1 (\<open>0 - 1\<close> is \<open>0\<close> on \<^typ>\<open>nat\<close>, and \<^verbatim>\<open>range(-1)\<close> is empty).
\<close>

definition pause_range :: "word list \<Rightarrow> nat list" where
  "pause_range words = [0..<length words - 1]"

subsection \<open>Step 7: pacing (lines 135-166)\<close>

text \<open>
  Lines 137-150: the duration in seconds, \<^verbatim>\<open>result.get('audio_duration', 0)\<close> unless the
  words give a positive buffered duration. \<^verbatim>\<open>adjusted_duration_ms / 1000.0\<close> converts
  the integer to a float.
\<close>

definition audio_duration_sec :: "word list \<Rightarrow> rat \<Rightarrow> py_error + rat" where
  "audio_duration_sec words audio_duration =
     (if length words > 0 then
        py_bind (py_index words 0) (\<lambda>first.
        py_bind (py_index words (- 1)) (\<lambda>final.
          let start_ms = w_start first;
              end_ms = w_end final;
              active_duration_ms = end_ms - start_ms;
              adjusted_duration_ms = active_duration_ms + 1000
          in if adjusted_duration_ms > 0 then int_truediv adjusted_duration_ms 1000
             else Inr audio_duration))
      else Inr audio_duration)"

text \<open>Line 152.\<close>

definition audio_duration_min :: "rat \<Rightarrow> rat" where
  "audio_duration_min sec = (if sec > 0 then sec / 60 else 1)"

text \<open>
  Line 154, \<^verbatim>\<open>total_words_count\<close> being \<^verbatim>\<open>len(words)\<close> (a length is below \<open>2 ^ 63\<close>, so
  its conversion to a float cannot raise).
\<close>

definition wpm :: "nat \<Rightarrow> rat \<Rightarrow> py_error + rat" where
  "wpm total_words_count minutes =
     (if minutes > 0 then truediv (of_nat total_words_count) minutes else Inr 0)"

definition min_wpm :: int where
  "min_wpm = 130"

definition max_wpm :: int where
  "max_wpm = 170"

text \<open>Lines 157-166: the score and the feedback of the pace \<open>w\<close>.\<close>

definition wpm_score :: "rat \<Rightarrow> rat" where
  "wpm_score w =
     (if w < of_int min_wpm then max 0 (100 - (of_int min_wpm - w))
      else if w > of_int max_wpm then max 0 (100 - (w - of_int max_wpm))
      else 100)"

definition wpm_feedback :: "rat \<Rightarrow> string" where
  "wpm_feedback w =
     (if w < of_int min_wpm
      then ''Your pace is too slow. Aim for '' @ str_nat (nat min_wpm) @ ''-''
           @ str_nat (nat max_wpm) @ '' WPM for the clearest speech.''
      else if w > of_int max_wpm
      then ''Your pace is too fast. Slow down to '' @ str_nat (nat min_wpm) @ ''-''
           @ str_nat (nat max_wpm) @ '' WPM for the clearest speech.''
      else ''Perfect pacing.'')"

subsection \<open>Step 7: fillers (lines 167-186)\<close>

text \<open>The loop of lines 171-178 on \<^verbatim>\<open>filler_penalty\<close>.\<close>

fun filler_penalty_loop :: "word list \<Rightarrow> int \<Rightarrow> int" where
  "filler_penalty_loop [] filler_penalty = filler_penalty"
| "filler_penalty_loop (word # rest) filler_penalty =
     (if clean_word word \<in> set [''um'', ''uh''] then filler_penalty_loop rest (filler_penalty + 5)
      else if clean_word word = ''like'' then filler_penalty_loop rest (filler_penalty + 3)
      else filler_penalty_loop rest (filler_penalty + 2))"

definition filler_score :: "int \<Rightarrow> int" where
  "filler_score filler_penalty = max 0 (100 - filler_penalty)"

definition filler_feedback :: "int \<Rightarrow> word list \<Rightarrow> string" where
  "filler_feedback score detected_fillers =
     (if score = 100 then ''Excellent! No filler words detected.''
      else if score > 80
      then ''A few filler words were detected, try to reduce usage of them.''
      else ''High filler usage detected ('' @ str_nat (length detected_fillers) @ '' found).'')"

subsection \<open>Step 7: pauses (lines 188-205)\<close>

text \<open>The loop of lines 192-194 on \<^verbatim>\<open>long_pause_penalty_count\<close>.\<close>

fun long_pause_penalty_loop :: "pause list \<Rightarrow> nat \<Rightarrow> nat" where
  "long_pause_penalty_loop [] long_pause_penalty_count = long_pause_penalty_count"
| "long_pause_penalty_loop (p # rest) long_pause_penalty_count =
     (if duration p > pause_threshold
      then long_pause_penalty_loop rest (long_pause_penalty_count + 1)
      else long_pause_penalty_loop rest long_pause_penalty_count)"

definition pause_score :: "nat \<Rightarrow> int" where
  "pause_score long_pause_penalty_count = max 0 (100 - int long_pause_penalty_count * 15)"

text \<open>Lines 197-205; \<^verbatim>\<open>{pause_threshold_for_penalty}\<close> formats the float 1.5.\<close>

definition pause_feedback :: "int \<Rightarrow> pause list \<Rightarrow> string" where
  "pause_feedback score detected_pauses =
     (if score = 100
      then (if length detected_pauses = 0 then ''Flow is continuous, great job!''
            else ''A few pauses are natural, but be cognizant of them.'')
      else if score > 70
      then ''Awkward pauses detected, aim to talk with confidence.''
      else ''Minimize long silences (>'' @ ''1.5'' @ ''s) to maintain engagement.'')"

subsection \<open>Step 7: sentiment (lines 207-228)\<close>

text \<open>The loop of lines 214-216 on \<^verbatim>\<open>negative_count\<close>.\<close>

fun negative_loop :: "sentence list \<Rightarrow> nat \<Rightarrow> nat" where
  "negative_loop [] negative_count = negative_count"
| "negative_loop (sent # rest) negative_count =
     (if sentiment sent = ''NEGATIVE'' then negative_loop rest (negative_count + 1)
      else negative_loop rest negative_count)"

text \<open>
  Lines 209-221: the pair \<^verbatim>\<open>(negative_count, sentiment_score)\<close>. The division of line 218
  is the true division of two integers.
\<close>

definition sentiment_score :: "sentence list \<Rightarrow> py_error + nat \<times> int" where
  "sentiment_score sentiment_results =
     (let total = length sentiment_results
      in if total > 0 then
           (let negative_count = negative_loop sentiment_results 0
            in py_bind (truediv (of_nat negative_count) (of_nat total)) (\<lambda>neg_ratio.
                 if neg_ratio > 1 / 10
                 then Inr (negative_count, max 0 (100 - py_int (neg_ratio * 100)))
                 else Inr (negative_count, 100)))
         else Inr (0, 100))"

definition sentiment_feedback :: "int \<Rightarrow> string" where
  "sentiment_feedback score =
     (if score \<ge> 90 then ''Tone is positive and professional.''
      else if score > 70 then ''Tone is mostly okay, but some negativity detected.''
      else ''Watch your tone - significant negative sentiment detected.'')"

subsection \<open>Step 7: the overall score and the report (lines 230-263)\<close>

text \<open>Line 233; the category scores are added as numbers, the pacing score may be a float.\<close>

definition overall_score :: "rat \<Rightarrow> int \<Rightarrow> int \<Rightarrow> int \<Rightarrow> int" where
  "overall_score wpm_sc filler_sc pause_sc sentiment_sc =
     py_int ((wpm_sc + of_int filler_sc + of_int pause_sc + of_int sentiment_sc) / 4)"

text \<open>Line 236.\<close>

definition final_feedback :: "string \<Rightarrow> string \<Rightarrow> string \<Rightarrow> string \<Rightarrow> string" where
  "final_feedback wpm_fb filler_fb pause_fb sentiment_fb =
     wpm_fb @ '' '' @ filler_fb @ '' '' @ pause_fb @ '' '' @ sentiment_fb"

text \<open>Lines 94-263, in the order of the source.\<close>

definition analyze_audio :: "result \<Rightarrow> py_error + report" where
  "analyze_audio res =
     (let words = res_words res;
          transcript_text = res_text res;
          (filler_count, detected_fillers) = filler_loop words (0, [])
      in py_bind (pause_loop words (pause_range words) (0, [])) (\<lambda>(long_pauses, detected_pauses).
         py_bind (audio_duration_sec words (res_audio_duration res)) (\<lambda>duration_sec.
         py_bind (wpm (length words) (audio_duration_min duration_sec)) (\<lambda>w.
           let wpm_sc = wpm_score w;
               wpm_fb = wpm_feedback w;
               filler_sc = filler_score (filler_penalty_loop detected_fillers 0);
               filler_fb = filler_feedback filler_sc detected_fillers;
               pause_sc = pause_score (long_pause_penalty_loop detected_pauses 0);
               pause_fb = pause_feedback pause_sc detected_pauses;
               sentiment_results = res_sentiment_analysis_results res
           in py_bind (sentiment_score sentiment_results) (\<lambda>(negative_count, sentiment_sc).
                let sentiment_fb = sentiment_feedback sentiment_sc
                in Inr \<lparr>rep_score = overall_score wpm_sc filler_sc pause_sc sentiment_sc,
                        rep_wpm = py_round1 w,
                        rep_fillers_detected = filler_count,
                        rep_long_pauses = long_pauses,
                        rep_category_scores =
                          \<lparr>cs_pacing = wpm_sc, cs_fillers = filler_sc,
                           cs_pauses = pause_sc, cs_sentiment = sentiment_sc\<rparr>,
                        rep_category_feedback =
                          \<lparr>cf_pacing = wpm_fb, cf_fillers = filler_fb,
                           cf_pauses = pause_fb, cf_sentiment = sentiment_fb\<rparr>,
                        rep_sentiment_stats =
                          \<lparr>negative_sentences = negative_count,
                           total_sentences = length sentiment_results\<rparr>,
                        rep_feedback = final_feedback wpm_fb filler_fb pause_fb sentiment_fb,
                        rep_transcript_text = transcript_text,
                        rep_words = words,
                        rep_detailed_pauses = detected_pauses\<rparr>)))))"

section \<open>The notions the properties are stated with\<close>

text \<open>
  The scoring rules in closed form, as the specification words them, to be compared with
  the loops above. A word is a filler when its cleaned text is in the lexicon; a filler
  costs 5 (\<open>um\<close>, \<open>uh\<close>), 3 (\<open>like\<close>) or 2.
\<close>

definition is_filler :: "word \<Rightarrow> bool" where
  "is_filler word = (clean_word word \<in> set fillers)"

definition penalty_of :: "word \<Rightarrow> int" where
  "penalty_of word =
     (if clean_word word = ''um'' \<or> clean_word word = ''uh'' then 5
      else if clean_word word = ''like'' then 3 else 2)"

text \<open>
  The gap after word \<open>i\<close>, in milliseconds and in seconds; the indices whose gap is
  longer than 1.5 seconds; the record of the pause after word \<open>i\<close>.
\<close>

definition gap_ms_at :: "word list \<Rightarrow> nat \<Rightarrow> int" where
  "gap_ms_at words i = w_start (words ! Suc i) - w_end (words ! i)"

definition gap_sec_at :: "word list \<Rightarrow> nat \<Rightarrow> rat" where
  "gap_sec_at words i = of_int (gap_ms_at words i) / 1000"

definition long_gap :: "word list \<Rightarrow> nat \<Rightarrow> bool" where
  "long_gap words i = (gap_sec_at words i > 3 / 2)"

definition pause_at :: "word list \<Rightarrow> nat \<Rightarrow> pause" where
  "pause_at words i = \<lparr>after_word_index = i, duration = gap_sec_at words i\<rparr>"

definition long_gaps :: "word list \<Rightarrow> nat list" where
  "long_gaps words = filter (long_gap words) (pause_range words)"

text \<open>
  The buffered active duration in milliseconds (of a non-empty word list), the duration
  in seconds that the pace is computed from, and the pace.
\<close>

definition adjusted_ms :: "word list \<Rightarrow> int" where
  "adjusted_ms words = w_end (last words) - w_start (hd words) + 1000"

definition effective_duration_sec :: "word list \<Rightarrow> rat \<Rightarrow> rat" where
  "effective_duration_sec words d =
     (if words \<noteq> [] \<and> 0 < adjusted_ms words then of_int (adjusted_ms words) / 1000 else d)"

definition wpm_of :: "word list \<Rightarrow> rat \<Rightarrow> rat" where
  "wpm_of words d = of_nat (length words) / audio_duration_min (effective_duration_sec words d)"

text \<open>The number of negative sentences and their share.\<close>

definition negatives :: "sentence list \<Rightarrow> nat" where
  "negatives ss = length (filter (\<lambda>s. sentiment s = ''NEGATIVE'') ss)"

definition neg_ratio :: "sentence list \<Rightarrow> rat" where
  "neg_ratio ss = of_nat (negatives ss) / of_nat (length ss)"

text \<open>
  The word lists on which no conversion of an integer to a float overflows: every gap
  between adjacent words, and the buffered active duration, are below \<open>float_limit\<close>.
\<close>

definition in_float_range :: "word list \<Rightarrow> bool" where
  "in_float_range words =
     (list_all (\<lambda>i. \<bar>gap_ms_at words i\<bar> < float_limit) (pause_range words)
      \<and> (words = [] \<or> adjusted_ms words < float_limit))"

text \<open>The sentiment score as a function of the sentences.\<close>

definition sentiment_of :: "sentence list \<Rightarrow> int" where
  "sentiment_of ss =
     (if ss = [] then 100
      else if neg_ratio ss > 1 / 10 then max 0 (100 - \<lfloor>neg_ratio ss * 100\<rfloor>)
      else 100)"

subsection \<open>Concrete inputs\<close>

text \<open>Two words, the first a filler; no sentences; a reported duration of 2 seconds.\<close>

definition ex_um :: result where
  "ex_um = \<lparr>res_words = [\<lparr>w_text = ''um'', w_start = 0, w_end = 500\<rparr>,
                          \<lparr>w_text = ''test'', w_start = 600, w_end = 1000\<rparr>],
            res_text = ''um test'', res_audio_duration = 2,
            res_sentiment_analysis_results = []\<rparr>"


text \<open>Two words, 1900 milliseconds apart.\<close>

definition ex_pause :: result where
  "ex_pause = \<lparr>res_words = [\<lparr>w_text = ''a'', w_start = 0, w_end = 100\<rparr>,
                             \<lparr>w_text = ''b'', w_start = 2000, w_end = 2100\<rparr>],
               res_text = ''a b'', res_audio_duration = 3,
               res_sentiment_analysis_results = []\<rparr>"






section \<open>The loops and the steps in closed form\<close>

lemma py_bind_Inr [simp]: "py_bind (Inr x) f = f x"
  by (simp add: py_bind_def)

lemma py_bind_Inl [simp]: "py_bind (Inl e) f = Inl e"
  by (simp add: py_bind_def)

lemma filler_loop_eq:
  "filler_loop ws acc = (fst acc + length (filter is_filler ws), snd acc @ filter is_filler ws)"
  by (induction ws acc rule: filler_loop.induct) (simp_all add: is_filler_def)

lemma filler_penalty_loop_eq:
  "filler_penalty_loop ws p = p + sum_list (map penalty_of ws)"
  by (induction ws p rule: filler_penalty_loop.induct) (simp_all add: penalty_of_def)

lemma long_pause_penalty_loop_eq:
  "long_pause_penalty_loop ps c = c + length (filter (\<lambda>p. duration p > pause_threshold) ps)"
  by (induction ps c rule: long_pause_penalty_loop.induct) simp_all

lemma negative_loop_eq:
  "negative_loop ss c = c + length (filter (\<lambda>s. sentiment s = ''NEGATIVE'') ss)"
  by (induction ss c rule: negative_loop.induct) simp_all

subsection \<open>The guarded list accesses\<close>

lemma py_index_first: "xs \<noteq> [] \<Longrightarrow> py_index xs 0 = Inr (hd xs)"
  by (simp add: py_index_def hd_conv_nth)

lemma py_index_last: "xs \<noteq> [] \<Longrightarrow> py_index xs (- 1) = Inr (last xs)"
  by (cases xs rule: rev_cases) (simp_all add: py_index_def nth_append)

lemma py_index_nat: "i < length xs \<Longrightarrow> py_index xs (int i) = Inr (xs ! i)"
  by (simp add: py_index_def)

lemma pause_range_bound: "\<forall>i \<in> set (pause_range words). Suc i < length words"
  by (auto simp: pause_range_def)

subsection \<open>The pause loop\<close>

lemma float_limit_pos: "0 < float_limit"
  by (simp add: float_limit_def)

lemma int_truediv_1000:
  "int_truediv n 1000 = (if \<bar>n\<bar> < float_limit then Inr (of_int n / 1000) else Inl OverflowError)"
  by (simp add: int_truediv_def to_float_def truediv_def)

lemma pause_step_eq:
  assumes "Suc i < length words"
  shows "pause_step words i acc =
    (if \<bar>gap_ms_at words i\<bar> < float_limit
     then Inr (if long_gap words i
               then (fst acc + 1, snd acc @ [pause_at words i]) else acc)
     else Inl OverflowError)"
proof -
  have a: "py_index words (int i) = Inr (words ! i)"
    using assms by (simp add: py_index_nat)
  have b: "py_index words (int i + 1) = Inr (words ! Suc i)"
    using assms py_index_nat [of "Suc i" words] by (simp add: add.commute)
  show ?thesis
    by (simp add: pause_step_def a b int_truediv_1000 gap_ms_at_def gap_sec_at_def
        long_gap_def pause_at_def pause_threshold_def Let_def)
qed

lemma pause_loop_eq:
  assumes "\<forall>i \<in> set is. Suc i < length words"
  shows "pause_loop words is acc =
    (if list_all (\<lambda>i. \<bar>gap_ms_at words i\<bar> < float_limit) is
     then Inr (fst acc + length (filter (long_gap words) is),
               snd acc @ map (pause_at words) (filter (long_gap words) is))
     else Inl OverflowError)"
  using assms
proof (induction "is" arbitrary: acc)
  case Nil
  then show ?case by simp
next
  case (Cons i rest)
  then have i: "Suc i < length words" and rest: "\<forall>j \<in> set rest. Suc j < length words"
    by simp_all
  show ?case
    by (simp add: pause_step_eq [OF i] Cons.IH [OF rest])
qed

lemma pause_loop_range:
  "pause_loop words (pause_range words) (0, []) =
    (if list_all (\<lambda>i. \<bar>gap_ms_at words i\<bar> < float_limit) (pause_range words)
     then Inr (length (long_gaps words), map (pause_at words) (long_gaps words))
     else Inl OverflowError)"
  by (simp add: pause_loop_eq [OF pause_range_bound] long_gaps_def)

lemma penalised_long_gaps:
  "filter (\<lambda>p. duration p > pause_threshold) (map (pause_at words) (long_gaps words))
     = map (pause_at words) (long_gaps words)"
proof -
  have "\<forall>p \<in> set (map (pause_at words) (long_gaps words)). duration p > pause_threshold"
    by (auto simp: long_gaps_def pause_at_def long_gap_def pause_threshold_def)
  then show ?thesis
    by (simp only: filter_True)
qed

subsection \<open>Pacing and sentiment\<close>

lemma audio_duration_sec_eq:
  "audio_duration_sec words d =
     (if words \<noteq> [] \<and> 0 < adjusted_ms words
      then (if adjusted_ms words < float_limit
            then Inr (of_int (adjusted_ms words) / 1000) else Inl OverflowError)
      else Inr d)"
proof (cases "words = []")
  case True
  then show ?thesis by (simp add: audio_duration_sec_def)
next
  case False
  then show ?thesis
    by (simp add: audio_duration_sec_def py_index_first py_index_last int_truediv_1000
        adjusted_ms_def Let_def)
qed

lemma audio_duration_min_pos: "0 < audio_duration_min s"
  by (simp add: audio_duration_min_def)

lemma wpm_eq: "wpm n (audio_duration_min s) = Inr (of_nat n / audio_duration_min s)"
  using audio_duration_min_pos [of s] by (simp add: wpm_def truediv_def)

lemma sentiment_score_eq:
  "sentiment_score ss =
     Inr (negatives ss,
          if ss = [] then 100
          else if neg_ratio ss > 1 / 10 then max 0 (100 - \<lfloor>neg_ratio ss * 100\<rfloor>)
          else 100)"
proof (cases "ss = []")
  case True
  then show ?thesis by (simp add: sentiment_score_def negatives_def)
next
  case False
  have "0 \<le> neg_ratio ss * 100"
    by (simp add: neg_ratio_def)
  then have "py_int (neg_ratio ss * 100) = \<lfloor>neg_ratio ss * 100\<rfloor>"
    by (simp add: py_int_def)
  with False show ?thesis
    by (simp add: sentiment_score_def truediv_def negative_loop_eq negatives_def
        neg_ratio_def Let_def)
qed

section \<open>The report in closed form\<close>

text \<open>
  The engine raises nothing but \<^verbatim>\<open>OverflowError\<close>, and that only outside
  \<open>in_float_range\<close>; otherwise it returns the report below.
\<close>

lemma analyze_audio_eq:
  "analyze_audio res =
    (if in_float_range (res_words res)
     then Inr
       \<lparr>rep_score =
          overall_score (wpm_score (wpm_of (res_words res) (res_audio_duration res)))
            (filler_score (sum_list (map penalty_of (filter is_filler (res_words res)))))
            (pause_score (length (long_gaps (res_words res))))
            (sentiment_of (res_sentiment_analysis_results res)),
        rep_wpm = py_round1 (wpm_of (res_words res) (res_audio_duration res)),
        rep_fillers_detected = length (filter is_filler (res_words res)),
        rep_long_pauses = length (long_gaps (res_words res)),
        rep_category_scores =
          \<lparr>cs_pacing = wpm_score (wpm_of (res_words res) (res_audio_duration res)),
           cs_fillers =
             filler_score (sum_list (map penalty_of (filter is_filler (res_words res)))),
           cs_pauses = pause_score (length (long_gaps (res_words res))),
           cs_sentiment = sentiment_of (res_sentiment_analysis_results res)\<rparr>,
        rep_category_feedback =
          \<lparr>cf_pacing = wpm_feedback (wpm_of (res_words res) (res_audio_duration res)),
           cf_fillers =
             filler_feedback
               (filler_score (sum_list (map penalty_of (filter is_filler (res_words res)))))
               (filter is_filler (res_words res)),
           cf_pauses =
             pause_feedback (pause_score (length (long_gaps (res_words res))))
               (map (pause_at (res_words res)) (long_gaps (res_words res))),
           cf_sentiment =
             sentiment_feedback (sentiment_of (res_sentiment_analysis_results res))\<rparr>,
        rep_sentiment_stats =
          \<lparr>negative_sentences = negatives (res_sentiment_analysis_results res),
           total_sentences = length (res_sentiment_analysis_results res)\<rparr>,
        rep_feedback =
          final_feedback
            (wpm_feedback (wpm_of (res_words res) (res_audio_duration res)))
            (filler_feedback
               (filler_score (sum_list (map penalty_of (filter is_filler (res_words res)))))
               (filter is_filler (res_words res)))
            (pause_feedback (pause_score (length (long_gaps (res_words res))))
               (map (pause_at (res_words res)) (long_gaps (res_words res))))
            (sentiment_feedback (sentiment_of (res_sentiment_analysis_results res))),
        rep_transcript_text = res_text res,
        rep_words = res_words res,
        rep_detailed_pauses = map (pause_at (res_words res)) (long_gaps (res_words res))\<rparr>
     else Inl OverflowError)"
  unfolding analyze_audio_def
  by (simp add: filler_loop_eq pause_loop_range audio_duration_sec_eq wpm_eq
      sentiment_score_eq filler_penalty_loop_eq long_pause_penalty_loop_eq sentiment_of_def
      penalised_long_gaps in_float_range_def wpm_of_def effective_duration_sec_def Let_def)
    (use float_limit_pos in auto)

subsection \<open>What a returned report holds, field by field\<close>

lemma report_scores:
  assumes "analyze_audio res = Inr r"
  shows "cs_pacing (rep_category_scores r)
           = wpm_score (wpm_of (res_words res) (res_audio_duration res))"
    and "cs_fillers (rep_category_scores r)
           = filler_score (sum_list (map penalty_of (filter is_filler (res_words res))))"
    and "cs_pauses (rep_category_scores r) = pause_score (length (long_gaps (res_words res)))"
    and "cs_sentiment (rep_category_scores r)
           = sentiment_of (res_sentiment_analysis_results res)"
    and "rep_score r = overall_score (cs_pacing (rep_category_scores r))
           (cs_fillers (rep_category_scores r)) (cs_pauses (rep_category_scores r))
           (cs_sentiment (rep_category_scores r))"
  using assms by (auto simp: analyze_audio_eq split: if_splits)

lemma report_counts:
  assumes "analyze_audio res = Inr r"
  shows "rep_fillers_detected r = length (filter is_filler (res_words res))"
    and "rep_long_pauses r = length (long_gaps (res_words res))"
    and "rep_detailed_pauses r = map (pause_at (res_words res)) (long_gaps (res_words res))"
    and "rep_wpm r = py_round1 (wpm_of (res_words res) (res_audio_duration res))"
    and "cf_pauses (rep_category_feedback r)
           = pause_feedback (cs_pauses (rep_category_scores r)) (rep_detailed_pauses r)"
  using assms by (auto simp: analyze_audio_eq split: if_splits)

subsection \<open>The ranges of the four scores\<close>

lemma wpm_score_range: "0 \<le> wpm_score w \<and> wpm_score w \<le> 100"
  by (simp add: wpm_score_def min_wpm_def max_wpm_def)

lemma penalty_of_nonneg: "0 \<le> sum_list (map penalty_of ws)"
  by (rule sum_list_nonneg) (auto simp: penalty_of_def)

lemma filler_score_range:
  "0 \<le> filler_score (sum_list (map penalty_of ws)) \<and> filler_score (sum_list (map penalty_of ws)) \<le> 100"
  using penalty_of_nonneg [of ws] by (simp add: filler_score_def)

lemma pause_score_range: "0 \<le> pause_score n \<and> pause_score n \<le> 100"
  by (simp add: pause_score_def)

lemma neg_ratio_nonneg: "0 \<le> neg_ratio ss"
  by (simp add: neg_ratio_def)

lemma sentiment_of_range: "0 \<le> sentiment_of ss \<and> sentiment_of ss \<le> 100"
proof -
  have "0 \<le> \<lfloor>neg_ratio ss * 100\<rfloor>"
    using neg_ratio_nonneg [of ss] by simp
  then show ?thesis
    by (simp add: sentiment_of_def)
qed


lemma analyze_audio_returns:
  "in_float_range (res_words res) \<Longrightarrow> \<exists>r. analyze_audio res = Inr r"
  by (simp add: analyze_audio_eq)

lemmas in_float_range_eval =
  in_float_range_def pause_range_def gap_ms_at_def adjusted_ms_def float_limit_def


lemmas long_gaps_eval =
  long_gaps_def long_gap_def gap_sec_at_def gap_ms_at_def pause_range_def pause_at_def
  upt_conv_Cons


subsection \<open>When the pacing score is a whole number\<close>






subsection \<open>The filler penalty by kind of filler\<close>


subsection \<open>The pause score and the pause feedback\<close>

lemma pause_score_100: "pause_score n = 100 \<longleftrightarrow> n = 0"
  by (simp add: pause_score_def max_def)

lemma pause_feedback_natural:
  "pause_feedback (pause_score (length ps)) ps
     \<noteq> ''A few pauses are natural, but be cognizant of them.''"
  by (simp add: pause_feedback_def pause_score_100)

section \<open>The properties\<close>

text \<open>
  C1. For every input on which the engine returns a report, each of the four category
  scores (pacing, fillers, pauses, sentiment) is at least 0 and at most 100.
\<close>

theorem category_scores_in_range:
  assumes "analyze_audio res = Inr r"
  shows "0 \<le> cs_pacing (rep_category_scores r) \<and> cs_pacing (rep_category_scores r) \<le> 100
       \<and> 0 \<le> cs_fillers (rep_category_scores r) \<and> cs_fillers (rep_category_scores r) \<le> 100
       \<and> 0 \<le> cs_pauses (rep_category_scores r) \<and> cs_pauses (rep_category_scores r) \<le> 100
       \<and> 0 \<le> cs_sentiment (rep_category_scores r) \<and> cs_sentiment (rep_category_scores r) \<le> 100"
  using wpm_score_range filler_score_range pause_score_range sentiment_of_range
  by (simp add: report_scores [OF assms])

theorem category_scores_in_range_witness:
  "\<exists>r. analyze_audio ex_um = Inr r
     \<and> 0 \<le> cs_pacing (rep_category_scores r) \<and> cs_pacing (rep_category_scores r) \<le> 100
     \<and> 0 \<le> cs_fillers (rep_category_scores r) \<and> cs_fillers (rep_category_scores r) \<le> 100
     \<and> 0 \<le> cs_pauses (rep_category_scores r) \<and> cs_pauses (rep_category_scores r) \<le> 100
     \<and> 0 \<le> cs_sentiment (rep_category_scores r) \<and> cs_sentiment (rep_category_scores r) \<le> 100"
proof -
  have "in_float_range (res_words ex_um)"
    by (simp add: ex_um_def in_float_range_eval)
  then obtain r where run: "analyze_audio ex_um = Inr r"
    using analyze_audio_returns by blast
  from category_scores_in_range [OF run] run show ?thesis
    by blast
qed






text \<open>
  C4. For every word sequence on which the engine returns a report, the detected pauses
  are the records \<open>(i, gap)\<close> for exactly the indices \<open>i\<close> from 0 to \<open>len - 2\<close>, in
  order, whose gap (the start of word \<open>i + 1\<close> minus the end of word \<open>i\<close>, divided by
  1000) is strictly greater than 1.5; \<open>long_pauses\<close> is their number; and the pause
  score is \<open>max 0 (100 - 15 * long_pauses)\<close>.
\<close>

theorem detected_pauses_and_score:
  assumes "analyze_audio res = Inr r"
  shows "rep_detailed_pauses r =
           map (\<lambda>i. \<lparr>after_word_index = i,
                      duration = of_int (w_start (res_words res ! Suc i)
                                         - w_end (res_words res ! i)) / 1000\<rparr>)
             (filter (\<lambda>i. of_int (w_start (res_words res ! Suc i)
                                   - w_end (res_words res ! i)) / 1000 > (3 / 2 :: rat))
                [0..<length (res_words res) - 1])
       \<and> rep_long_pauses r = length (rep_detailed_pauses r)
       \<and> cs_pauses (rep_category_scores r) = max 0 (100 - 15 * int (rep_long_pauses r))"
proof -
  have "rep_detailed_pauses r =
          map (\<lambda>i. \<lparr>after_word_index = i,
                     duration = of_int (w_start (res_words res ! Suc i)
                                        - w_end (res_words res ! i)) / 1000\<rparr>)
            (filter (\<lambda>i. of_int (w_start (res_words res ! Suc i)
                                  - w_end (res_words res ! i)) / 1000 > (3 / 2 :: rat))
               [0..<length (res_words res) - 1])"
    unfolding report_counts(3) [OF assms] long_gaps_def pause_range_def long_gap_def
      gap_sec_at_def gap_ms_at_def pause_at_def ..
  moreover have "rep_long_pauses r = length (rep_detailed_pauses r)"
    by (simp add: report_counts(2,3) [OF assms])
  moreover have "cs_pauses (rep_category_scores r) = max 0 (100 - 15 * int (rep_long_pauses r))"
    by (simp add: report_counts(2) [OF assms] report_scores(3) [OF assms] pause_score_def
        mult.commute)
  ultimately show ?thesis
    by (intro conjI)
qed

theorem detected_pauses_and_score_witness:
  "\<exists>r. analyze_audio ex_pause = Inr r
     \<and> rep_detailed_pauses r = [\<lparr>after_word_index = 0, duration = 19 / 10\<rparr>]
     \<and> rep_long_pauses r = 1
     \<and> cs_pauses (rep_category_scores r) = 85"
proof -
  have "in_float_range (res_words ex_pause)"
    by (simp add: ex_pause_def in_float_range_eval)
  then obtain r where run: "analyze_audio ex_pause = Inr r"
    using analyze_audio_returns by blast
  have "rep_detailed_pauses r = [\<lparr>after_word_index = 0, duration = 19 / 10\<rparr>]
      \<and> rep_long_pauses r = 1 \<and> cs_pauses (rep_category_scores r) = 85"
    using detected_pauses_and_score [OF run] by (simp add: ex_pause_def)
  with run show ?thesis
    by blast
qed







text \<open>
  C8. For every input on which the engine returns a report: if the pause score is 100
  then the list of detected pauses is empty and the pause feedback is the
  "continuous flow" message; the "A few pauses are natural" message is never the pause
  feedback.
\<close>

theorem natural_pauses_branch_dead:
  assumes "analyze_audio res = Inr r"
  shows "(cs_pauses (rep_category_scores r) = 100
            \<longrightarrow> rep_detailed_pauses r = []
              \<and> cf_pauses (rep_category_feedback r) = ''Flow is continuous, great job!'')
       \<and> cf_pauses (rep_category_feedback r)
            \<noteq> ''A few pauses are natural, but be cognizant of them.''"
proof -
  have score: "cs_pauses (rep_category_scores r) = pause_score (length (rep_detailed_pauses r))"
    by (simp add: report_scores(3) [OF assms] report_counts(3) [OF assms])
  have fb: "cf_pauses (rep_category_feedback r)
              = pause_feedback (pause_score (length (rep_detailed_pauses r)))
                  (rep_detailed_pauses r)"
    using report_counts(5) [OF assms] by (simp add: score)
  show ?thesis
    using pause_feedback_natural [of "rep_detailed_pauses r"]
    by (simp add: score fb pause_score_100 pause_feedback_def)
qed

theorem natural_pauses_branch_dead_witness:
  "\<exists>r. analyze_audio ex_um = Inr r
     \<and> cs_pauses (rep_category_scores r) = 100
     \<and> rep_detailed_pauses r = []
     \<and> cf_pauses (rep_category_feedback r) = ''Flow is continuous, great job!''"
proof -
  have "in_float_range (res_words ex_um)"
    by (simp add: ex_um_def in_float_range_eval)
  then obtain r where run: "analyze_audio ex_um = Inr r"
    using analyze_audio_returns by blast
  have "long_gaps (res_words ex_um) = []"
    by (simp add: ex_um_def long_gaps_eval)
  then have score: "cs_pauses (rep_category_scores r) = 100"
    by (simp add: report_scores(3) [OF run] pause_score_def)
  with natural_pauses_branch_dead [OF run] run show ?thesis
    by blast
qed




text \<open>
  C10. For every non-empty word sequence in which the end of the last word minus the
  start of the first is greater than -1000 milliseconds, the outcome of the engine (the
  whole report, or the exception) does not depend on the reported audio duration.
\<close>

theorem report_independent_of_audio_duration:
  assumes "res_words res \<noteq> []"
    and "w_end (last (res_words res)) - w_start (hd (res_words res)) > - 1000"
  shows "analyze_audio (res\<lparr>res_audio_duration := d1\<rparr>)
           = analyze_audio (res\<lparr>res_audio_duration := d2\<rparr>)"
proof -
  have "0 < adjusted_ms (res_words res)"
    using assms(2) by (simp add: adjusted_ms_def)
  with assms(1) have "wpm_of (res_words res) d1 = wpm_of (res_words res) d2"
    by (simp add: wpm_of_def effective_duration_sec_def)
  then show ?thesis
    by (simp add: analyze_audio_eq)
qed

theorem report_independent_of_audio_duration_witness:
  "res_words ex_um \<noteq> []
   \<and> w_end (last (res_words ex_um)) - w_start (hd (res_words ex_um)) = 1000
   \<and> analyze_audio (ex_um\<lparr>res_audio_duration := 2\<rparr>)
       = analyze_audio (ex_um\<lparr>res_audio_duration := 3600\<rparr>)
   \<and> \<not> isl (analyze_audio (ex_um\<lparr>res_audio_duration := 3600\<rparr>))"
proof -
  have words: "res_words ex_um \<noteq> []"
    by (simp add: ex_um_def)
  have span: "w_end (last (res_words ex_um)) - w_start (hd (res_words ex_um)) = 1000"
    by (simp add: ex_um_def)
  then have "w_end (last (res_words ex_um)) - w_start (hd (res_words ex_um)) > - 1000"
    by simp
  from report_independent_of_audio_duration [OF words this, of 2 3600]
  have same: "analyze_audio (ex_um\<lparr>res_audio_duration := 2\<rparr>)
       = analyze_audio (ex_um\<lparr>res_audio_duration := 3600\<rparr>)" .
  have "in_float_range (res_words (ex_um\<lparr>res_audio_duration := 3600\<rparr>))"
    by (simp add: ex_um_def in_float_range_eval)
  then have "\<not> isl (analyze_audio (ex_um\<lparr>res_audio_duration := 3600\<rparr>))"
    using analyze_audio_returns [of "ex_um\<lparr>res_audio_duration := 3600\<rparr>"] by auto
  with words span same show ?thesis
    by blast
qed

end
